theory Spec2Isabelle
  imports Complex_Main
begin

section \<open>Domain model\<close>

text \<open>
  The shared type declarations (shared/types) are not part of the sources; the records
  below carry the fields the scheduling code reads, typed as the configuration contract
  lists them. A date is a civil day, counted in days since 1970-01-01: every date the
  schedulers build is a local midnight, and the program runs in one time zone.
\<close>

type_synonym date = int

datatype StaffingLevel = Normal | Shortage

datatype RotationType = CORE_NSX | MANDATORY_OFF_SERVICE | EXAM_LEAVE | HOLIDAY_LEAVE | FLEXIBLE

datatype Team = Red | Blue

datatype CallType = Night | Weekend | Holiday | PostCall | NoCall

datatype LeaveStatus =
  PendingAnalysis | PendingApproval | Approved | Denied | FlaggedForReview | AnalysisFailed

record Resident =
  rid :: string
  name :: string
  pgyLevel :: int
  specialty :: string
  onService :: bool
  isChief :: bool
  callExempt :: bool

record ParoRule =
  minDays :: int
  maxDays :: int
  calls :: int

record MonthlySchedulerConfig =
  paroHardCaps :: "ParoRule list"
  callRatios :: "int \<rightharpoonup> int"
  maxWeekendsPerRotation :: int
  weekendDefinition :: "string list"

record RotationAssignment =
  ra_residentId :: string
  rotationName :: string
  rotationType :: RotationType
  team :: "Team option"
  holidayType :: "string option"
  required :: bool

record RotationBlock =
  blockNumber :: int
  rb_startDate :: date
  rb_endDate :: date
  assignments :: "RotationAssignment list"

record AcademicYear =
  ay_id :: string
  blocks :: "RotationBlock list"
  totalResidents :: nat
  totalExternalRotators :: nat

record LeaveRequest =
  lr_id :: string
  lr_residentId :: string
  lr_type :: string
  lr_status :: LeaveStatus
  lr_startDate :: date
  lr_endDate :: date

text \<open>A call assignment; \<open>createdAt\<close> (the clock at creation) is left out.\<close>

record CallAssignment =
  ca_id :: string
  ca_residentId :: string
  ca_residentName :: string
  ca_date :: date
  ca_type :: CallType
  ca_points :: int
  ca_isHoliday :: bool
  ca_team :: "Team option"
  ca_createdBy :: string
  ca_status :: string

record RotationRule =
  rr_blockNumber :: int
  rr_pgyLevels :: "int list"
  rr_rotationName :: string

record YearlySchedulerConfig =
  mandatoryRotations :: "RotationRule list"
  examLeave :: "RotationRule list"

datatype AppliesTo = SPECIALTY | SPECIALTY_PGY_MIN | OTHER_RULE

record CoverageRule =
  isEnabled :: bool
  appliesTo :: AppliesTo
  cr_specialty :: string
  minPgyLevel :: int
  minCount :: int

record LeavePolicy =
  minNoticeDays :: int
  maxConsecutiveDays :: int
  annualLimit :: int

record AppConfiguration =
  monthlySchedulerConfig :: MonthlySchedulerConfig
  yearlySchedulerConfig :: "YearlySchedulerConfig option"
  coverageRules :: "CoverageRule list"
  leavePolicy :: "LeavePolicy option"
  holidays :: "date list"

section \<open>Monthly call scheduler: the call cap\<close>

text \<open>
  \<open>getMaxCalls\<close>: a call-exempt chief gets 0; otherwise the first PARO rule whose day range
  holds the working days gives the hard cap (8 when no rule matches); a missing or zero
  ratio (\<open>!callRatio\<close>) returns the hard cap; else Normal staffing takes the smaller of the
  hard cap and \<open>Math.floor(workingDays / callRatio)\<close>, Shortage the hard cap.
\<close>

definition getMaxCalls :: "MonthlySchedulerConfig \<Rightarrow> Resident \<Rightarrow> int \<Rightarrow> StaffingLevel \<Rightarrow> int" where
  "getMaxCalls mc resident workingDays staffingLevel =
     (if isChief resident \<and> callExempt resident then 0
      else
        let paroRule = find (\<lambda>rule. workingDays \<ge> minDays rule \<and> workingDays \<le> maxDays rule)
                         (paroHardCaps mc);
            paroHardCap = (case paroRule of Some rule \<Rightarrow> calls rule | None \<Rightarrow> 8)
        in case callRatios mc (pgyLevel resident) of
             None \<Rightarrow> paroHardCap
           | Some callRatio \<Rightarrow>
               if callRatio = 0 then paroHardCap
               else
                 let pgyTarget = \<lfloor>rat_of_int workingDays / rat_of_int callRatio\<rfloor>
                 in if staffingLevel = Normal then min paroHardCap pgyTarget else paroHardCap)"

section \<open>Calendar\<close>

text \<open>
  The runtime's \<open>Date\<close>, on civil days. \<open>days_from_civil\<close> numbers the day \<open>d\<close> of month
  \<open>m\<close> (1 to 12) of year \<open>y\<close> in the proleptic Gregorian calendar; \<open>civil_from_days\<close> is
  its inverse. \<open>newDate y m d\<close> is \<open>new Date(y, m, d)\<close> with a month index from 0, months
  and days out of range carrying over as the runtime does.
\<close>

definition days_from_civil :: "int \<Rightarrow> int \<Rightarrow> int \<Rightarrow> int" where
  "days_from_civil y m d =
     (let y' = (if m \<le> 2 then y - 1 else y);
          era = y' div 400;
          yoe = y' - era * 400;
          mp = (if m > 2 then m - 3 else m + 9);
          doy = (153 * mp + 2) div 5 + d - 1;
          doe = yoe * 365 + yoe div 4 - yoe div 100 + doy
      in era * 146097 + doe - 719468)"

definition civil_from_days :: "int \<Rightarrow> int \<times> int \<times> int" where
  "civil_from_days z =
     (let z' = z + 719468;
          era = z' div 146097;
          doe = z' - era * 146097;
          yoe = (doe - doe div 1460 + doe div 36524 - doe div 146096) div 365;
          doy = doe - (365 * yoe + yoe div 4 - yoe div 100);
          mp = (5 * doy + 2) div 153;
          d = doy - (153 * mp + 2) div 5 + 1;
          m = (if mp < 10 then mp + 3 else mp - 9);
          y = yoe + era * 400
      in (if m \<le> 2 then y + 1 else y, m, d))"

definition newDate :: "int \<Rightarrow> int \<Rightarrow> int \<Rightarrow> date" where
  "newDate y m d = days_from_civil (y + m div 12) (m mod 12 + 1) 1 + (d - 1)"

definition getFullYear :: "date \<Rightarrow> int" where
  "getFullYear z = fst (civil_from_days z)"

definition getMonth :: "date \<Rightarrow> int" where
  "getMonth z = fst (snd (civil_from_days z)) - 1"

definition getDate :: "date \<Rightarrow> int" where
  "getDate z = snd (snd (civil_from_days z))"

text \<open>\<open>getDay\<close>: 0 is Sunday; day 0 (1970-01-01) was a Thursday.\<close>

definition getDay :: "date \<Rightarrow> int" where
  "getDay z = (z + 4) mod 7"

definition weekdayLong :: "date \<Rightarrow> string" where
  "weekdayLong z =
     [''Sunday'', ''Monday'', ''Tuesday'', ''Wednesday'', ''Thursday'', ''Friday'', ''Saturday'']
       ! nat (getDay z)"

definition lowerChar :: "char \<Rightarrow> char" where
  "lowerChar c =
     (case map_of (zip ''ABCDEFGHIJKLMNOPQRSTUVWXYZ'' ''abcdefghijklmnopqrstuvwxyz'') c of
        Some l \<Rightarrow> l
      | None \<Rightarrow> c)"

definition toLowerCase :: "string \<Rightarrow> string" where
  "toLowerCase s = map lowerChar s"

text \<open>Decimal rendering of a number (\<open>toString\<close>) and \<open>padStart(2, '0')\<close>.\<close>

function showNat :: "nat \<Rightarrow> string" where
  "showNat n =
     (if n < 10 then [''0123456789'' ! n] else showNat (n div 10) @ [''0123456789'' ! (n mod 10)])"
  by pat_completeness auto
termination
  by (relation "measure id") auto

declare showNat.simps [simp del]

definition showInt :: "int \<Rightarrow> string" where
  "showInt i = (if i < 0 then CHR ''-'' # showNat (nat (- i)) else showNat (nat i))"

definition padStart2 :: "string \<Rightarrow> string" where
  "padStart2 s = replicate (2 - length s) (CHR ''0'') @ s"

section \<open>Monthly call scheduler\<close>

record CallStats =
  totalCalls :: int
  weekendCalls :: int
  holidayCalls :: int
  nightCalls :: int
  lastCallDate :: "date option"
  consecutiveDays :: int
  callDates :: "date list"
  points :: int

record SchedulingScore =
  ss_resident :: Resident
  score :: rat

record DayRequirements =
  dr_date :: date
  dayOfWeek :: int
  dr_isWeekend :: bool
  dr_isHoliday :: bool
  callType :: CallType
  requiredCoverage :: int
  priority :: int

text \<open>
  The scheduler object: the constructor's arguments and the holiday list it loads. Its one
  mutable field, the \<open>callStats\<close> map, is passed explicitly. The map has an entry for the
  id of every resident and is read at residents' ids only, so it is a function from ids;
  its \<open>forEach\<close> runs over the distinct ids of the residents list.
\<close>

record Scheduler =
  residents :: "Resident list"
  config :: AppConfiguration
  academicYear :: AcademicYear
  approvedLeave :: "LeaveRequest list"
  month :: int
  year :: int
  existingAssignments :: "CallAssignment list"
  sch_holidays :: "date list"

definition loadHolidays :: "AppConfiguration \<Rightarrow> int \<Rightarrow> date list" where
  "loadHolidays cfg yr = holidays cfg @ [newDate yr 0 1, newDate yr 6 4, newDate yr 11 25]"

definition MonthlyCallScheduler ::
  "Resident list \<Rightarrow> AppConfiguration \<Rightarrow> AcademicYear \<Rightarrow> LeaveRequest list \<Rightarrow> int \<Rightarrow> int \<Rightarrow>
   CallAssignment list \<Rightarrow> Scheduler" where
  "MonthlyCallScheduler rs cfg ay leave m y existing =
     \<lparr>residents = rs, config = cfg, academicYear = ay, approvedLeave = leave, month = m,
      year = y, existingAssignments = existing, sch_holidays = loadHolidays cfg y\<rparr>"

text \<open>\<open>getLastCallDate\<close> sorts its argument in place, latest first (the sort is stable).\<close>

definition sortLatestFirst :: "CallAssignment list \<Rightarrow> CallAssignment list" where
  "sortLatestFirst xs = sort_key (\<lambda>a. - ca_date a) xs"

definition getLastCallDate :: "CallAssignment list \<Rightarrow> date option" where
  "getLastCallDate xs = (case sortLatestFirst xs of [] \<Rightarrow> None | a # _ \<Rightarrow> Some (ca_date a))"

definition initializeCallStats :: "Scheduler \<Rightarrow> string \<Rightarrow> CallStats" where
  "initializeCallStats s residentId =
     (let existingCalls = filter (\<lambda>a. ca_residentId a = residentId \<and> ca_type a \<noteq> PostCall)
                            (existingAssignments s)
      in \<lparr>totalCalls = int (length existingCalls),
          weekendCalls = int (length (filter (\<lambda>a. ca_type a = Weekend) existingCalls)),
          holidayCalls = int (length (filter (\<lambda>a. ca_type a = Holiday) existingCalls)),
          nightCalls = int (length (filter (\<lambda>a. ca_type a = Night) existingCalls)),
          lastCallDate = getLastCallDate existingCalls,
          consecutiveDays = 0,
          callDates = map ca_date (sortLatestFirst existingCalls),
          points = foldl (\<lambda>sum a. sum + ca_points a) 0 existingCalls\<rparr>)"

definition getCurrentBlock :: "Scheduler \<Rightarrow> date \<Rightarrow> RotationBlock option" where
  "getCurrentBlock s d = find (\<lambda>b. d \<ge> rb_startDate b \<and> d \<le> rb_endDate b) (blocks (academicYear s))"

text \<open>The weekend definition is an array, which is never falsy: its \<open>||\<close> default is not taken.\<close>

definition isWeekend :: "Scheduler \<Rightarrow> date \<Rightarrow> bool" where
  "isWeekend s d =
     (let dayName = weekdayLong d;
          weekendDays = weekendDefinition (monthlySchedulerConfig (config s))
      in toLowerCase dayName \<in> set (map toLowerCase weekendDays))"

definition isHoliday :: "Scheduler \<Rightarrow> date \<Rightarrow> bool" where
  "isHoliday s d = list_ex (\<lambda>h. h = d) (sch_holidays s)"

definition isOnLeave :: "Scheduler \<Rightarrow> string \<Rightarrow> date \<Rightarrow> bool" where
  "isOnLeave s residentId d =
     list_ex (\<lambda>leave. lr_residentId leave = residentId \<and> lr_status leave = Approved \<and>
                d \<ge> lr_startDate leave \<and> d \<le> lr_endDate leave) (approvedLeave s)"

definition getDaysBetween :: "date \<Rightarrow> date \<Rightarrow> int" where
  "getDaysBetween date1 date2 = \<lfloor>rat_of_int \<bar>date2 - date1\<bar>\<rfloor>"

definition isPostCall :: "(string \<Rightarrow> CallStats) \<Rightarrow> string \<Rightarrow> date \<Rightarrow> bool" where
  "isPostCall cs residentId d =
     (case lastCallDate (cs residentId) of
        None \<Rightarrow> False
      | Some l \<Rightarrow> getDaysBetween l d < 2)"

definition hasRequestedTimeOff :: "Scheduler \<Rightarrow> string \<Rightarrow> date \<Rightarrow> bool" where
  "hasRequestedTimeOff s residentId d =
     list_ex (\<lambda>leave. lr_residentId leave = residentId \<and> lr_status leave = PendingApproval \<and>
                d \<ge> lr_startDate leave \<and> d \<le> lr_endDate leave) (approvedLeave s)"

definition getResidentTeam :: "Scheduler \<Rightarrow> string \<Rightarrow> date \<Rightarrow> Team option" where
  "getResidentTeam s residentId d =
     (case getCurrentBlock s d of
        None \<Rightarrow> None
      | Some block \<Rightarrow>
          (case find (\<lambda>a. ra_residentId a = residentId) (assignments block) of
             None \<Rightarrow> None
           | Some rotation \<Rightarrow> team rotation))"

definition getRequiredResidentCount :: "CallType \<Rightarrow> int" where
  "getRequiredResidentCount ct =
     (case ct of Holiday \<Rightarrow> 2 | Weekend \<Rightarrow> 1 | Night \<Rightarrow> 1 | _ \<Rightarrow> 0)"

definition requiresPostCall :: "CallType \<Rightarrow> bool" where
  "requiresPostCall ct = (ct \<in> set [Night, Weekend, Holiday])"

definition calculateCallPoints :: "CallType \<Rightarrow> int" where
  "calculateCallPoints ct =
     (case ct of Night \<Rightarrow> 1 | Weekend \<Rightarrow> 2 | Holiday \<Rightarrow> 3 | PostCall \<Rightarrow> 0 | NoCall \<Rightarrow> 0)"

function workingDaysLoop :: "Scheduler \<Rightarrow> date \<Rightarrow> date \<Rightarrow> int \<Rightarrow> int" where
  "workingDaysLoop s current end workingDays =
     (if current \<le> end
      then workingDaysLoop s (current + 1) end
             (if \<not> isHoliday s current then workingDays + 1 else workingDays)
      else workingDays)"
  by pat_completeness auto
termination
  by (relation "measure (\<lambda>(s, current, end, workingDays). nat (end - current + 1))") auto

declare workingDaysLoop.simps [simp del]

definition getWorkingDaysForBlock :: "Scheduler \<Rightarrow> RotationBlock option \<Rightarrow> int" where
  "getWorkingDaysForBlock s blockOpt =
     (case blockOpt of
        None \<Rightarrow> 28
      | Some block \<Rightarrow> workingDaysLoop s (rb_startDate block) (rb_endDate block) 0)"

text \<open>
  \<open>checkPAROCompliance\<close>: the calls on record from 28 days before the date up to, not
  including, the date; one more must not exceed \<open>lookback / 4\<close>.
\<close>

definition checkPAROCompliance :: "(string \<Rightarrow> CallStats) \<Rightarrow> string \<Rightarrow> date \<Rightarrow> bool" where
  "checkPAROCompliance cs residentId d =
     (let lookback = (28::int);
          lookbackDate = d - lookback;
          recentCalls = int (length (filter (\<lambda>x. x \<ge> lookbackDate \<and> x < d)
                                       (callDates (cs residentId))))
      in rat_of_int (recentCalls + 1) \<le> rat_of_int lookback / 4)"

definition isEligibleForCall ::
  "Scheduler \<Rightarrow> (string \<Rightarrow> CallStats) \<Rightarrow> Resident \<Rightarrow> date \<Rightarrow> StaffingLevel \<Rightarrow> bool" where
  "isEligibleForCall s cs resident d staffingLevel =
     (let stats = cs (rid resident)
      in case getCurrentBlock s d of
           None \<Rightarrow> False
         | Some block \<Rightarrow>
             (case find (\<lambda>a. ra_residentId a = rid resident) (assignments block) of
                None \<Rightarrow> False
              | Some rotation \<Rightarrow>
                  if rotationType rotation \<noteq> CORE_NSX then False
                  else if isOnLeave s (rid resident) d then False
                  else if isPostCall cs (rid resident) d then False
                  else
                    let workingDays = getWorkingDaysForBlock s (Some block);
                        maxCalls = getMaxCalls (monthlySchedulerConfig (config s)) resident
                                     workingDays staffingLevel
                    in if totalCalls stats \<ge> maxCalls then False
                       else if isWeekend s d \<and>
                               weekendCalls stats \<ge>
                                 (let m = maxWeekendsPerRotation (monthlySchedulerConfig (config s))
                                  in if m = 0 then 2 else m)
                       then False
                       else if \<not> checkPAROCompliance cs (rid resident) d then False
                       else True))"

definition getAverageCallCount :: "Scheduler \<Rightarrow> (string \<Rightarrow> CallStats) \<Rightarrow> rat" where
  "getAverageCallCount s cs =
     (if length (residents s) = 0 then 0
      else
        let total = foldl (\<lambda>total i. total + totalCalls (cs i)) 0 (remdups (map rid (residents s)))
        in rat_of_int total / rat_of_nat (length (residents s)))"

definition getAveragePoints :: "Scheduler \<Rightarrow> (string \<Rightarrow> CallStats) \<Rightarrow> rat" where
  "getAveragePoints s cs =
     (if length (residents s) = 0 then 0
      else
        let total = foldl (\<lambda>total i. total + points (cs i)) 0 (remdups (map rid (residents s)))
        in rat_of_int total / rat_of_nat (length (residents s)))"

text \<open>\<open>Math.round\<close> rounds to the nearest integer, halves upwards.\<close>

definition mathRound :: "rat \<Rightarrow> int" where
  "mathRound x = \<lfloor>x + 1 / 2\<rfloor>"

definition getTeamCallBalance :: "Scheduler \<Rightarrow> (string \<Rightarrow> CallStats) \<Rightarrow> Team \<Rightarrow> int" where
  "getTeamCallBalance s cs t =
     (let members = filter (\<lambda>resident.
                       case getCurrentBlock s (newDate (year s) (month s) 15) of
                         None \<Rightarrow> False
                       | Some block \<Rightarrow>
                           (case find (\<lambda>a. ra_residentId a = rid resident) (assignments block) of
                              None \<Rightarrow> False
                            | Some rotation \<Rightarrow> team rotation = Some t)) (residents s);
          teamCalls = foldl (\<lambda>c resident. c + totalCalls (cs (rid resident))) 0 members;
          teamMembers = length members
      in if teamMembers = 0 then 0
         else
           let teamAverage = rat_of_int teamCalls / rat_of_nat teamMembers;
               overallAverage = getAverageCallCount s cs
           in mathRound ((overallAverage - teamAverage) * 5))"

definition scoreResident ::
  "Scheduler \<Rightarrow> (string \<Rightarrow> CallStats) \<Rightarrow> Resident \<Rightarrow> date \<Rightarrow> CallType \<Rightarrow> SchedulingScore" where
  "scoreResident s cs resident d ct =
     (let stats = cs (rid resident);
          avgCalls = getAverageCallCount s cs;
          callDifference = rat_of_int (totalCalls stats) - avgCalls;
          fairnessScore = max 0 (30 - callDifference * 10);
          restScore = (case lastCallDate stats of
                         Some l \<Rightarrow> rat_of_int (min (getDaysBetween l d * 3) 30)
                       | None \<Rightarrow> 30);
          seniorityScore = (if ct = Weekend \<or> ct = Holiday
                            then rat_of_int (pgyLevel resident * 2) else 0);
          avgPoints = getAveragePoints s cs;
          pointDiff = rat_of_int (points stats) - avgPoints;
          pointScore = max 0 (20 - pointDiff);
          teamScore = (case getResidentTeam s (rid resident) d of
                         Some t \<Rightarrow> rat_of_int (getTeamCallBalance s cs t)
                       | None \<Rightarrow> 0);
          penalty = (if hasRequestedTimeOff s (rid resident) d then 50 else 0);
          total = 100 + fairnessScore + restScore + seniorityScore + pointScore + teamScore - penalty
      in \<lparr>ss_resident = resident, score = max 0 total\<rparr>)"

text \<open>
  \<open>selectBestResident\<close>: the eligible residents not yet selected for the day, scored, sorted
  by descending score (the runtime's sort is stable, as \<open>sort_key\<close> is), the first one returned.
\<close>

definition selectBestResident ::
  "Scheduler \<Rightarrow> (string \<Rightarrow> CallStats) \<Rightarrow> date \<Rightarrow> CallType \<Rightarrow> StaffingLevel \<Rightarrow> string list \<Rightarrow>
   Resident option" where
  "selectBestResident s cs d ct staffingLevel excludeIds =
     (let eligibleResidents = filter (\<lambda>resident. rid resident \<notin> set excludeIds \<and>
                                         isEligibleForCall s cs resident d staffingLevel)
                                (residents s)
      in if length eligibleResidents = 0 then None
         else
           let scoredResidents = map (\<lambda>resident. scoreResident s cs resident d ct) eligibleResidents;
               sorted = sort_key (\<lambda>x. - score x) scoredResidents
           in (case sorted of [] \<Rightarrow> None | x # _ \<Rightarrow> Some (ss_resident x)))"

definition createCallAssignment ::
  "Scheduler \<Rightarrow> Resident \<Rightarrow> date \<Rightarrow> CallType \<Rightarrow> bool \<Rightarrow> CallAssignment" where
  "createCallAssignment s resident d ct isHol =
     \<lparr>ca_id = ''call-'' @ showInt (year s) @ ''-'' @ padStart2 (showInt (month s + 1)) @ ''-'' @
              showInt (getDate d) @ ''-'' @ rid resident,
      ca_residentId = rid resident,
      ca_residentName = name resident,
      ca_date = d,
      ca_type = ct,
      ca_points = calculateCallPoints ct,
      ca_isHoliday = isHol,
      ca_team = getResidentTeam s (rid resident) d,
      ca_createdBy = ''system'',
      ca_status = ''Scheduled''\<rparr>"

definition createPostCallAssignments ::
  "Scheduler \<Rightarrow> CallAssignment \<Rightarrow> CallType \<Rightarrow> CallAssignment list" where
  "createPostCallAssignments s callAssignment ct =
     (if \<not> requiresPostCall ct then []
      else
        let postCallDate = ca_date callAssignment + 1
        in if getMonth postCallDate \<noteq> month s then []
           else [callAssignment\<lparr>ca_id := ''postcall-'' @ ca_id callAssignment,
                                ca_date := postCallDate,
                                ca_type := PostCall,
                                ca_points := 0,
                                ca_status := ''PostCall''\<rparr>])"

definition updateResidentStats ::
  "(string \<Rightarrow> CallStats) \<Rightarrow> string \<Rightarrow> DayRequirements \<Rightarrow> (string \<Rightarrow> CallStats)" where
  "updateResidentStats cs residentId dayReq =
     (let stats = cs residentId
      in cs(residentId :=
           stats\<lparr>totalCalls := totalCalls stats + 1,
                 lastCallDate := Some (dr_date dayReq),
                 callDates := callDates stats @ [dr_date dayReq],
                 weekendCalls := (if dr_isWeekend dayReq then weekendCalls stats + 1
                                  else weekendCalls stats),
                 holidayCalls := (if dr_isHoliday dayReq then holidayCalls stats + 1
                                  else holidayCalls stats),
                 nightCalls := (if callType dayReq = Night then nightCalls stats + 1
                                else nightCalls stats),
                 points := points stats + calculateCallPoints (callType dayReq)\<rparr>))"

definition dayRequirement :: "Scheduler \<Rightarrow> int \<Rightarrow> DayRequirements" where
  "dayRequirement s day =
     (let d = newDate (year s) (month s) day;
          dow = getDay d;
          wk = isWeekend s d;
          hol = isHoliday s d;
          ct = (if hol then Holiday else if wk then Weekend
                else if dow \<ge> 1 \<and> dow \<le> 4 then Night else NoCall);
          prio = (if hol then 3 else if wk then 2 else if dow \<ge> 1 \<and> dow \<le> 4 then 1 else 0)
      in \<lparr>dr_date = d, dayOfWeek = dow, dr_isWeekend = wk, dr_isHoliday = hol, callType = ct,
          requiredCoverage = getRequiredResidentCount ct, priority = prio\<rparr>)"

definition calculateDayRequirements :: "Scheduler \<Rightarrow> int \<Rightarrow> DayRequirements list" where
  "calculateDayRequirements s daysInMonth = map (dayRequirement s) [1..daysInMonth]"

text \<open>
  The inner loop of \<open>generateSchedule\<close>: \<open>n\<close> positions still to fill for the day. A position
  nobody is eligible for is skipped. The state is the statistics map and the assignments
  emitted so far.
\<close>

fun fillPositions ::
  "Scheduler \<Rightarrow> StaffingLevel \<Rightarrow> DayRequirements \<Rightarrow> nat \<Rightarrow> Resident list \<Rightarrow>
   (string \<Rightarrow> CallStats) \<times> CallAssignment list \<Rightarrow> (string \<Rightarrow> CallStats) \<times> CallAssignment list" where
  "fillPositions s staffingLevel dayReq 0 selectedResidents st = st"
| "fillPositions s staffingLevel dayReq (Suc n) selectedResidents (cs, out) =
     (case selectBestResident s cs (dr_date dayReq) (callType dayReq) staffingLevel
             (map rid selectedResidents) of
        None \<Rightarrow> fillPositions s staffingLevel dayReq n selectedResidents (cs, out)
      | Some bestResident \<Rightarrow>
          let assignment = createCallAssignment s bestResident (dr_date dayReq) (callType dayReq)
                             (dr_isHoliday dayReq);
              cs' = updateResidentStats cs (rid bestResident) dayReq;
              postCallAssignments = createPostCallAssignments s assignment (callType dayReq)
          in fillPositions s staffingLevel dayReq n (selectedResidents @ [bestResident])
               (cs', out @ [assignment] @ postCallAssignments))"

definition processDay ::
  "Scheduler \<Rightarrow> StaffingLevel \<Rightarrow> (string \<Rightarrow> CallStats) \<times> CallAssignment list \<Rightarrow> DayRequirements \<Rightarrow>
   (string \<Rightarrow> CallStats) \<times> CallAssignment list" where
  "processDay s staffingLevel st dayReq =
     (if callType dayReq = NoCall then st
      else fillPositions s staffingLevel dayReq
             (nat (getRequiredResidentCount (callType dayReq))) [] st)"

text \<open>
  \<open>generateSchedule\<close>: the day requirements of the month, sorted by descending priority (a
  stable sort), processed in that order. The metrics computed at the end are only logged.
\<close>

definition generateSchedule :: "Scheduler \<Rightarrow> StaffingLevel \<Rightarrow> CallAssignment list" where
  "generateSchedule s staffingLevel =
     (let daysInMonth = getDate (newDate (year s) (month s + 1) 0);
          dayRequirements = calculateDayRequirements s daysInMonth;
          sorted = sort_key (\<lambda>r. - priority r) dayRequirements
      in snd (foldl (processDay s staffingLevel) (initializeCallStats s, []) sorted))"

section \<open>The second monthly scheduler (Backend logic)\<close>

text \<open>
  The file "Monthly Call Scheduler (Backend logic)" declares the class again. Its
  \<open>generateSchedule\<close> computes the eligible residents of every day and drops them; nothing
  is pushed onto \<open>assignments\<close>.
\<close>

definition dup_getWorkingDaysForBlock :: "RotationBlock option \<Rightarrow> int" where
  "dup_getWorkingDaysForBlock blockOpt = (case blockOpt of None \<Rightarrow> 28 | Some block \<Rightarrow> 28)"

definition dup_getMaxCalls :: "MonthlySchedulerConfig \<Rightarrow> Resident \<Rightarrow> int \<Rightarrow> StaffingLevel \<Rightarrow> int" where
  "dup_getMaxCalls mc resident workingDays staffingLevel =
     (if isChief resident \<and> callExempt resident then 0
      else
        let paroRule = find (\<lambda>rule. workingDays \<ge> minDays rule \<and> workingDays \<le> maxDays rule)
                         (paroHardCaps mc);
            paroHardCap = (case paroRule of Some rule \<Rightarrow> calls rule | None \<Rightarrow> 8);
            callRatio = (case callRatios mc (pgyLevel resident) of
                           None \<Rightarrow> 99
                         | Some r \<Rightarrow> if r = 0 then 99 else r);
            pgyTarget = \<lfloor>rat_of_int workingDays / rat_of_int callRatio\<rfloor>
        in if staffingLevel = Normal then min paroHardCap pgyTarget else paroHardCap)"

definition dup_isAvailable ::
  "Scheduler \<Rightarrow> (string \<rightharpoonup> int) \<Rightarrow> (string \<rightharpoonup> int) \<Rightarrow> Resident \<Rightarrow> date \<Rightarrow> StaffingLevel \<Rightarrow> bool" where
  "dup_isAvailable s callCounts weekendCounts resident d staffingLevel =
     (let block = find (\<lambda>b. d \<ge> rb_startDate b \<and> d \<le> rb_endDate b) (blocks (academicYear s));
          rotation = (case block of
                        None \<Rightarrow> None
                      | Some b \<Rightarrow> find (\<lambda>a. ra_residentId a = rid resident) (assignments b))
      in case rotation of
           None \<Rightarrow> False
         | Some r \<Rightarrow>
             if rotationType r \<noteq> CORE_NSX then False
             else if list_ex (\<lambda>l. d \<ge> lr_startDate l \<and> d \<le> lr_endDate l \<and>
                                  lr_residentId l = rid resident) (approvedLeave s)
             then False
             else
               let mc = monthlySchedulerConfig (config s);
                   workingDays = dup_getWorkingDaysForBlock block;
                   maxCalls = dup_getMaxCalls mc resident workingDays staffingLevel
               in if (case callCounts (rid resident) of None \<Rightarrow> 0 | Some c \<Rightarrow> c) \<ge> maxCalls
                  then False
                  else
                    let weekendDef = map toLowerCase (weekendDefinition mc);
                        dayName = toLowerCase (weekdayLong d)
                    in if dayName \<in> set weekendDef \<and>
                          (case weekendCounts (rid resident) of None \<Rightarrow> 0 | Some c \<Rightarrow> c)
                            \<ge> maxWeekendsPerRotation mc
                       then False
                       else True)"

definition dup_generateSchedule :: "Scheduler \<Rightarrow> StaffingLevel \<Rightarrow> CallAssignment list" where
  "dup_generateSchedule s staffingLevel =
     (let out = ([] :: CallAssignment list);
          daysInMonth = getDate (newDate (year s) (month s + 1) 0);
          callCounts = map_of (map (\<lambda>r. (rid r, 0)) (residents s));
          weekendCounts = map_of (map (\<lambda>r. (rid r, 0)) (residents s));
          eligiblePerDay = map (\<lambda>day.
                              let currentDate = newDate (year s) (month s) day
                              in filter (\<lambda>res. dup_isAvailable s callCounts weekendCounts res
                                                 currentDate staffingLevel) (residents s))
                             [1..daysInMonth]
      in out)"

section \<open>Yearly rotation engine\<close>

datatype error = TypeError | NotFound

type_synonym grid = "RotationAssignment option list list"

definition BLOCKS_PER_YEAR :: nat where
  "BLOCKS_PER_YEAR = 13"

definition DAYS_PER_BLOCK :: int where
  "DAYS_PER_BLOCK = 28"

text \<open>
  The engine object. \<open>startYear\<close> is the number read from the front of \<open>academicYearId\<close>.
  The grid starts as 13 rows of one empty cell per resident.
\<close>

record Engine =
  e_residents :: "Resident list"
  e_externalRotators :: "(date \<times> date) list"
  e_config :: AppConfiguration
  e_academicYearId :: string
  e_startYear :: int

definition emptySchedule :: "Engine \<Rightarrow> grid" where
  "emptySchedule e = replicate BLOCKS_PER_YEAR (replicate (length (e_residents e)) None)"

definition generateBlockDates :: "Engine \<Rightarrow> (date \<times> date) list" where
  "generateBlockDates e =
     map (\<lambda>i. let start = newDate (e_startYear e) 6 1 + int i * DAYS_PER_BLOCK
               in (start, start + DAYS_PER_BLOCK - 1)) [0..<BLOCKS_PER_YEAR]"

text \<open>
  \<open>isSlotEmpty\<close> reads \<open>schedule[block][resIndex]\<close>: a block index with no row is a
  TypeError; a resident index with no cell reads \<open>undefined\<close>, which is not \<open>null\<close>.
\<close>

definition isSlotEmpty :: "grid \<Rightarrow> int \<Rightarrow> nat \<Rightarrow> error + bool" where
  "isSlotEmpty schedule block resIndex =
     (if 0 \<le> block \<and> block < int (length schedule)
      then (let row = schedule ! nat block
            in Inr (resIndex < length row \<and> row ! resIndex = None))
      else Inl TypeError)"

definition assign :: "Engine \<Rightarrow> grid \<Rightarrow> int \<Rightarrow> nat \<Rightarrow> RotationAssignment \<Rightarrow> error + grid" where
  "assign e schedule block resIndex rotation =
     (case isSlotEmpty schedule block resIndex of
        Inl err \<Rightarrow> Inl err
      | Inr slotEmpty \<Rightarrow>
          if slotEmpty
          then Inr (schedule[nat block :=
                      (schedule ! nat block)[resIndex :=
                         Some (rotation\<lparr>ra_residentId := rid (e_residents e ! resIndex)\<rparr>)]])
          else Inr schedule)"

text \<open>One rule of phase 1 or 2 over the residents from index \<open>i\<close> on.\<close>

fun applyRule ::
  "Engine \<Rightarrow> RotationType \<Rightarrow> RotationRule \<Rightarrow> Resident list \<Rightarrow> nat \<Rightarrow> grid \<Rightarrow> error + grid" where
  "applyRule e rt rule [] i schedule = Inr schedule"
| "applyRule e rt rule (resident # rest) i schedule =
     (if pgyLevel resident \<in> set (rr_pgyLevels rule)
      then (case assign e schedule (rr_blockNumber rule - 1) i
                   \<lparr>ra_residentId = [], rotationName = rr_rotationName rule, rotationType = rt,
                    team = None, holidayType = None, required = True\<rparr> of
              Inl err \<Rightarrow> Inl err
            | Inr schedule' \<Rightarrow> applyRule e rt rule rest (Suc i) schedule')
      else applyRule e rt rule rest (Suc i) schedule)"

fun applyRules :: "Engine \<Rightarrow> RotationType \<Rightarrow> RotationRule list \<Rightarrow> grid \<Rightarrow> error + grid" where
  "applyRules e rt [] schedule = Inr schedule"
| "applyRules e rt (rule # rules) schedule =
     (case applyRule e rt rule (e_residents e) 0 schedule of
        Inl err \<Rightarrow> Inl err
      | Inr schedule' \<Rightarrow> applyRules e rt rules schedule')"

definition phase1_AssignMandatoryRotations :: "Engine \<Rightarrow> grid \<Rightarrow> error + grid" where
  "phase1_AssignMandatoryRotations e schedule =
     (let rules = (case yearlySchedulerConfig (e_config e) of
                     None \<Rightarrow> []
                   | Some yc \<Rightarrow> mandatoryRotations yc)
      in applyRules e MANDATORY_OFF_SERVICE rules schedule)"

definition phase2_AssignExamBlocks :: "Engine \<Rightarrow> grid \<Rightarrow> error + grid" where
  "phase2_AssignExamBlocks e schedule =
     (let rules = (case yearlySchedulerConfig (e_config e) of
                     None \<Rightarrow> []
                   | Some yc \<Rightarrow> examLeave yc)
      in applyRules e EXAM_LEAVE rules schedule)"

text \<open>
  Phase 3: the seniors (PGY 4 and above) with their indices, sorted by descending PGY level
  (a stable sort); the senior at an even position is offered block 6, at an odd one block 7.
\<close>

fun offerHolidays :: "Engine \<Rightarrow> (Resident \<times> nat) list \<Rightarrow> nat \<Rightarrow> grid \<Rightarrow> error + grid" where
  "offerHolidays e [] idx schedule = Inr schedule"
| "offerHolidays e ((resident, index) # rest) idx schedule =
     (let blockToAssign = (if idx mod 2 = 0 then 6 else 7 :: int)
      in case isSlotEmpty schedule (blockToAssign - 1) index of
           Inl err \<Rightarrow> Inl err
         | Inr slotEmpty \<Rightarrow>
             if slotEmpty
             then (case assign e schedule (blockToAssign - 1) index
                          \<lparr>ra_residentId = [], rotationName = ''Holiday Leave'',
                           rotationType = HOLIDAY_LEAVE, team = None,
                           holidayType = Some (if blockToAssign = 6 then ''Christmas''
                                               else ''NewYear''),
                           required = False\<rparr> of
                     Inl err \<Rightarrow> Inl err
                   | Inr schedule' \<Rightarrow> offerHolidays e rest (Suc idx) schedule')
             else offerHolidays e rest (Suc idx) schedule)"

definition phase3_AssignHolidayBlocks :: "Engine \<Rightarrow> grid \<Rightarrow> error + grid" where
  "phase3_AssignHolidayBlocks e schedule =
     (let seniors = sort_key (\<lambda>(r, i). - pgyLevel r)
                      (filter (\<lambda>(r, i). pgyLevel r \<ge> 4)
                         (zip (e_residents e) [0..<length (e_residents e)]))
      in offerHolidays e seniors 0 schedule)"

fun fillCore :: "Engine \<Rightarrow> (nat \<times> nat) list \<Rightarrow> grid \<Rightarrow> error + grid" where
  "fillCore e [] schedule = Inr schedule"
| "fillCore e ((block, resIndex) # rest) schedule =
     (case isSlotEmpty schedule (int block) resIndex of
        Inl err \<Rightarrow> Inl err
      | Inr slotEmpty \<Rightarrow>
          if slotEmpty
          then (case assign e schedule (int block) resIndex
                       \<lparr>ra_residentId = [], rotationName = ''Neurosurgery - Core'',
                        rotationType = CORE_NSX, team = None, holidayType = None,
                        required = False\<rparr> of
                  Inl err \<Rightarrow> Inl err
                | Inr schedule' \<Rightarrow> fillCore e rest schedule')
          else fillCore e rest schedule)"

definition phase4_AssignCoreNeurosurgeryRotations :: "Engine \<Rightarrow> grid \<Rightarrow> error + grid" where
  "phase4_AssignCoreNeurosurgeryRotations e schedule =
     fillCore e (concat (map (\<lambda>block. map (\<lambda>resIndex. (block, resIndex))
                                         [0..<length (e_residents e)])
                           [0..<BLOCKS_PER_YEAR])) schedule"

text \<open>
  Phase 6, for one block: the first pass counts the CORE_NSX cells already on a team, the
  second gives every CORE_NSX cell without a team Red when Red has no more members than
  Blue, otherwise Blue.
\<close>

definition countTeam :: "Team \<Rightarrow> RotationAssignment option list \<Rightarrow> nat" where
  "countTeam t row =
     length (filter (\<lambda>c. case c of
                            None \<Rightarrow> False
                          | Some a \<Rightarrow> rotationType a = CORE_NSX \<and> team a = Some t) row)"

fun balanceRow :: "RotationAssignment option list \<Rightarrow> nat \<Rightarrow> nat \<Rightarrow> RotationAssignment option list" where
  "balanceRow [] redTeamCount blueTeamCount = []"
| "balanceRow (None # row) redTeamCount blueTeamCount =
     None # balanceRow row redTeamCount blueTeamCount"
| "balanceRow (Some a # row) redTeamCount blueTeamCount =
     (if rotationType a = CORE_NSX \<and> team a = None
      then (if redTeamCount \<le> blueTeamCount
            then Some (a\<lparr>team := Some Red\<rparr>) # balanceRow row (redTeamCount + 1) blueTeamCount
            else Some (a\<lparr>team := Some Blue\<rparr>) # balanceRow row redTeamCount (blueTeamCount + 1))
      else Some a # balanceRow row redTeamCount blueTeamCount)"

definition phase6_BalanceTeams :: "grid \<Rightarrow> grid" where
  "phase6_BalanceTeams schedule =
     map (\<lambda>row. balanceRow row (countTeam Red row) (countTeam Blue row)) schedule"

definition formatScheduleForFirestore :: "Engine \<Rightarrow> grid \<Rightarrow> AcademicYear" where
  "formatScheduleForFirestore e schedule =
     \<lparr>ay_id = e_academicYearId e,
      blocks = map (\<lambda>blockNum.
                 \<lparr>blockNumber = int blockNum + 1,
                  rb_startDate = fst (generateBlockDates e ! blockNum),
                  rb_endDate = snd (generateBlockDates e ! blockNum),
                  assignments = map the (filter (\<lambda>a. a \<noteq> None) (schedule ! blockNum))\<rparr>)
                 [0..<BLOCKS_PER_YEAR],
      totalResidents = length (e_residents e),
      totalExternalRotators = length (e_externalRotators e)\<rparr>"

text \<open>
  The engine's \<open>generateSchedule\<close>: the phases in order, an exception of a phase rethrown.
  Phases 0 and 5 do nothing; phase 7 only logs the coverage violations it finds.
\<close>

definition yearly_generateSchedule :: "Engine \<Rightarrow> error + AcademicYear" where
  "yearly_generateSchedule e =
     (case phase1_AssignMandatoryRotations e (emptySchedule e) of
        Inl err \<Rightarrow> Inl err
      | Inr s1 \<Rightarrow>
          (case phase2_AssignExamBlocks e s1 of
             Inl err \<Rightarrow> Inl err
           | Inr s2 \<Rightarrow>
               (case phase3_AssignHolidayBlocks e s2 of
                  Inl err \<Rightarrow> Inl err
                | Inr s3 \<Rightarrow>
                    (case phase4_AssignCoreNeurosurgeryRotations e s3 of
                       Inl err \<Rightarrow> Inl err
                     | Inr s4 \<Rightarrow> Inr (formatScheduleForFirestore e (phase6_BalanceTeams s4))))))"

section \<open>Leave-request analyzer\<close>

datatype RiskLevel = Low | Medium | High

datatype Decision = Approve | Flagged | Deny

datatype Severity = HighSeverity | MediumSeverity

datatype ConflictType = Call | OR | Clinic

record Conflict =
  cf_type :: ConflictType
  cf_date :: date
  cf_description :: string
  severity :: Severity

record CoverageAnalysis =
  riskLevel :: RiskLevel
  availableResidents :: int
  cov_totalResidents :: int
  overlappingLeaveCount :: int
  coverageRatio :: rat
  criticalDates :: "date list"

record FairnessAnalysis =
  fa_score :: int
  historicalRate :: rat
  recentDaysOff :: int
  peerComparison :: rat
  recommendations :: "string list"

record PolicyCompliance =
  isCompliant :: bool
  violations :: "string list"

datatype Concern = MediumCoverageRisk | LowFairnessScore | MinorConflicts | PolicyConcerns

datatype Reason =
  CriticalConflicts nat ConflictType date
| PolicyViolations "string list"
| CriticalUnderstaffing
| MultipleConcerns "Concern list"
| SingleConcern Concern

record Recommendation =
  decision :: Decision
  reason :: "Reason option"

text \<open>
  What one run of the analyzer reads from the document store: the residents and leave
  requests collections, the configuration document if it exists, the conflicts that the
  look-up in the monthly and weekly schedule documents yields, and the clock (as a day).
\<close>

record Store =
  st_residents :: "Resident list"
  st_leaveRequests :: "LeaveRequest list"
  st_configuration :: "AppConfiguration option"
  st_scheduleConflicts :: "Conflict list"
  st_today :: date

definition getResident :: "Store \<Rightarrow> string \<Rightarrow> error + Resident" where
  "getResident st residentId =
     (case find (\<lambda>r. rid r = residentId) (st_residents st) of
        None \<Rightarrow> Inl NotFound
      | Some r \<Rightarrow> Inr r)"

definition sixMonthsAgo :: "Store \<Rightarrow> date" where
  "sixMonthsAgo st =
     newDate (getFullYear (st_today st)) (getMonth (st_today st) - 6) (getDate (st_today st))"

definition getHistoricalLeave :: "Store \<Rightarrow> string \<Rightarrow> LeaveRequest list" where
  "getHistoricalLeave st residentId =
     sort_key (\<lambda>l. - lr_startDate l)
       (filter (\<lambda>l. lr_residentId l = residentId \<and> lr_startDate l \<ge> sixMonthsAgo st)
          (st_leaveRequests st))"

text \<open>The inclusive length of a leave in days: \<open>Math.ceil\<close> of the difference, plus one.\<close>

definition leaveDays :: "LeaveRequest \<Rightarrow> int" where
  "leaveDays l = \<lceil>rat_of_int (lr_endDate l - lr_startDate l)\<rceil> + 1"

function weekendDatesLoop :: "date \<Rightarrow> date \<Rightarrow> date list \<Rightarrow> date list" where
  "weekendDatesLoop current end acc =
     (if current \<le> end
      then weekendDatesLoop (current + 1) end
             (if getDay current = 0 \<or> getDay current = 6 then acc @ [current] else acc)
      else acc)"
  by pat_completeness auto
termination
  by (relation "measure (\<lambda>(current, end, acc). nat (end - current + 1))") auto

declare weekendDatesLoop.simps [simp del]

text \<open>
  \<open>analyzeCoverageImpact\<close>. With no resident on service the runtime's ratio is a division
  by zero (minus infinity); every comparison made with it comes out as it does with 0.
\<close>

definition analyzeCoverageImpact :: "Store \<Rightarrow> LeaveRequest \<Rightarrow> CoverageAnalysis" where
  "analyzeCoverageImpact st request =
     (let totalRes = int (length (filter (\<lambda>r. onService r \<and> specialty r = ''Neurosurgery'')
                                     (st_residents st)));
          overlappingSnapshot = filter (\<lambda>l. lr_status l = Approved \<and>
                                            lr_endDate l \<ge> lr_startDate request)
                                  (st_leaveRequests st);
          overlappingLeave = filter (\<lambda>leave. lr_startDate leave \<le> lr_endDate request \<and>
                                             lr_residentId leave \<noteq> lr_residentId request)
                               overlappingSnapshot;
          overlappingCount = int (length overlappingLeave);
          available = totalRes - overlappingCount - 1;
          ratio = rat_of_int available / rat_of_int totalRes;
          critical = weekendDatesLoop (lr_startDate request) (lr_endDate request) [];
          baseLevel = (if ratio \<ge> 8 / 10 then Low else if ratio \<ge> 6 / 10 then Medium else High);
          level = (if length critical > 2 \<and> baseLevel = Low then Medium
                   else if length critical > 4 then High
                   else baseLevel)
      in \<lparr>riskLevel = level, availableResidents = available, cov_totalResidents = totalRes,
          overlappingLeaveCount = overlappingCount, coverageRatio = ratio,
          criticalDates = critical\<rparr>)"

text \<open>
  \<open>getPeerComparisonData\<close>, as far as it is used: the average days off of the peers (same
  PGY level and specialty) over their approved leave of the last six months.
\<close>

definition getPeerComparisonData :: "Store \<Rightarrow> LeaveRequest \<Rightarrow> error + rat" where
  "getPeerComparisonData st request =
     (case getResident st (lr_residentId request) of
        Inl err \<Rightarrow> Inl err
      | Inr resident \<Rightarrow>
          let peerIds = map rid (filter (\<lambda>r. pgyLevel r = pgyLevel resident \<and>
                                            specialty r = specialty resident) (st_residents st));
              peerLeave = filter (\<lambda>l. lr_residentId l \<in> set peerIds \<and> lr_status l = Approved \<and>
                                       lr_startDate l \<ge> sixMonthsAgo st) (st_leaveRequests st);
              totalDays = foldl (\<lambda>sum l. sum + leaveDays l) 0 peerLeave
          in Inr (if length peerIds > 0 then rat_of_int totalDays / rat_of_nat (length peerIds)
                  else 10))"

definition calculateFairness ::
  "LeaveRequest \<Rightarrow> LeaveRequest list \<Rightarrow> Resident \<Rightarrow> rat \<Rightarrow> FairnessAnalysis" where
  "calculateFairness request historicalLeave resident averageDaysOff =
     (let approved = filter (\<lambda>l. lr_status l = Approved) historicalLeave;
          recent = foldl (\<lambda>sum leave. sum + leaveDays leave) 0 approved;
          samePeriodRequests = filter (\<lambda>l. getMonth (lr_startDate l) = getMonth (lr_startDate request))
                                 historicalLeave;
          approvedCount = length (filter (\<lambda>l. lr_status l = Approved) samePeriodRequests);
          rate = (if length samePeriodRequests > 0
                  then rat_of_nat approvedCount / rat_of_nat (length samePeriodRequests)
                  else 1 / 2);
          peerAverage = (if averageDaysOff = 0 then 10 else averageDaysOff);
          comparison = (if peerAverage > 0 then rat_of_int recent / peerAverage else 1);
          score0 = (100::int);
          score1 = (if recent > 15 then score0 - 30 else if recent > 10 then score0 - 20
                    else if recent > 5 then score0 - 10 else score0);
          score2 = (if comparison > 15 / 10 then score1 - 20
                    else if comparison > 12 / 10 then score1 - 10
                    else if comparison < 1 / 2 then score1 + 10 else score1);
          score3 = score2 + pgyLevel resident * 2;
          score4 = max 0 (min 100 score3)
      in \<lparr>fa_score = score4, historicalRate = rate, recentDaysOff = recent,
          peerComparison = comparison,
          recommendations =
            (if rat_of_int recent > peerAverage
             then [''Consider deferring to allow peers equal opportunity''] else []) @
            (if rate < 3 / 10
             then [''This period historically has low approval rates''] else [])\<rparr>)"

definition policyOr :: "int \<Rightarrow> int \<Rightarrow> int" where
  "policyOr v dflt = (if v = 0 then dflt else v)"

definition checkPolicyCompliance ::
  "Store \<Rightarrow> LeaveRequest \<Rightarrow> LeaveRequest list \<Rightarrow> AppConfiguration \<Rightarrow> PolicyCompliance" where
  "checkPolicyCompliance st request historicalLeave cfg =
     (let daysNotice = \<lceil>rat_of_int (lr_startDate request - st_today st)\<rceil>;
          minNotice = (case leavePolicy cfg of None \<Rightarrow> 30 | Some p \<Rightarrow> policyOr (minNoticeDays p) 30);
          v1 = (if daysNotice < minNotice \<and> lr_type request \<noteq> ''Compassionate''
                then [''Less than '' @ showInt minNotice @ '' days notice provided''] else []);
          requestDays = leaveDays request;
          maxConsecutive = (case leavePolicy cfg of None \<Rightarrow> 14
                            | Some p \<Rightarrow> policyOr (maxConsecutiveDays p) 14);
          v2 = (if requestDays > maxConsecutive
                then [''Exceeds maximum '' @ showInt maxConsecutive @ '' consecutive days''] else []);
          yearStart = newDate (getFullYear (st_today st)) 0 1;
          yearLeave = filter (\<lambda>l. lr_status l = Approved \<and> lr_startDate l \<ge> yearStart) historicalLeave;
          yearDaysUsed = foldl (\<lambda>sum leave. sum + leaveDays leave) 0 yearLeave;
          limit = (case leavePolicy cfg of None \<Rightarrow> 21 | Some p \<Rightarrow> policyOr (annualLimit p) 21);
          v3 = (if yearDaysUsed + requestDays > limit
                then [''Would exceed annual limit of '' @ showInt limit @ '' days''] else []);
          vs = v1 @ v2 @ v3
      in \<lparr>isCompliant = (length vs = 0), violations = vs\<rparr>)"

text \<open>\<open>generateRecommendation\<close>: the decision and which rule gave it (the texts are left out).\<close>

definition generateRecommendation ::
  "FairnessAnalysis \<Rightarrow> CoverageAnalysis \<Rightarrow> Conflict list \<Rightarrow> PolicyCompliance \<Rightarrow> Recommendation" where
  "generateRecommendation fairness coverage conflicts policyCompliance =
     (let criticalConflicts = filter (\<lambda>c. severity c = HighSeverity) conflicts
      in case criticalConflicts of
           c # _ \<Rightarrow> \<lparr>decision = Deny,
                      reason = Some (CriticalConflicts (length criticalConflicts) (cf_type c) (cf_date c))\<rparr>
         | [] \<Rightarrow>
             if \<not> isCompliant policyCompliance \<and> length (violations policyCompliance) > 1
             then \<lparr>decision = Deny, reason = Some (PolicyViolations (violations policyCompliance))\<rparr>
             else if riskLevel coverage = High \<and> coverageRatio coverage < 1 / 2
             then \<lparr>decision = Deny, reason = Some CriticalUnderstaffing\<rparr>
             else
               let concerns =
                     (if riskLevel coverage = Medium then [MediumCoverageRisk] else []) @
                     (if fa_score fairness < 40 then [LowFairnessScore] else []) @
                     (if length conflicts > 0 then [MinorConflicts] else []) @
                     (if \<not> isCompliant policyCompliance then [PolicyConcerns] else [])
               in if length concerns \<ge> 2
                  then \<lparr>decision = Flagged, reason = Some (MultipleConcerns concerns)\<rparr>
                  else if length concerns = 1
                  then \<lparr>decision = Flagged, reason = Some (SingleConcern (hd concerns))\<rparr>
                  else \<lparr>decision = Approve, reason = None\<rparr>)"

definition getConfiguration :: "Store \<Rightarrow> AppConfiguration" where
  "getConfiguration st =
     (case st_configuration st of
        Some cfg \<Rightarrow> cfg
      | None \<Rightarrow>
          \<lparr>monthlySchedulerConfig = \<lparr>paroHardCaps = [], callRatios = Map.empty,
                                      maxWeekendsPerRotation = 0, weekendDefinition = []\<rparr>,
           yearlySchedulerConfig = None, coverageRules = [],
           leavePolicy = Some \<lparr>minNoticeDays = 30, maxConsecutiveDays = 14, annualLimit = 21\<rparr>,
           holidays = []\<rparr>)"

record AnalysisResult =
  ar_recommendation :: Decision
  ar_denialReason :: "Reason option"
  ar_coverage :: CoverageAnalysis
  ar_fairness :: FairnessAnalysis
  ar_conflicts :: "Conflict list"

text \<open>
  \<open>performComprehensiveAnalysis\<close>; it throws when the resident's document does not exist.
  The search for alternative dates fills a field of the report only and is left out.
\<close>

definition performComprehensiveAnalysis :: "Store \<Rightarrow> LeaveRequest \<Rightarrow> error + AnalysisResult" where
  "performComprehensiveAnalysis st request =
     (case getResident st (lr_residentId request) of
        Inl err \<Rightarrow> Inl err
      | Inr resident \<Rightarrow>
          (case getPeerComparisonData st request of
             Inl err \<Rightarrow> Inl err
           | Inr averageDaysOff \<Rightarrow>
               let historicalLeave = getHistoricalLeave st (lr_residentId request);
                   scheduleConflicts = st_scheduleConflicts st;
                   coverageAnalysis = analyzeCoverageImpact st request;
                   cfg = getConfiguration st;
                   fairnessAnalysis = calculateFairness request historicalLeave resident averageDaysOff;
                   policyCompliance = checkPolicyCompliance st request historicalLeave cfg;
                   recommendation = generateRecommendation fairnessAnalysis coverageAnalysis
                                      scheduleConflicts policyCompliance
               in Inr \<lparr>ar_recommendation = decision recommendation,
                        ar_denialReason = reason recommendation,
                        ar_coverage = coverageAnalysis,
                        ar_fairness = fairnessAnalysis,
                        ar_conflicts = scheduleConflicts\<rparr>))"

text \<open>
  \<open>analyzeLeaveRequest\<close>, the trigger: a request not in Pending Analysis is skipped
  (\<open>None\<close>); otherwise the request comes back with the status the transaction writes, or
  with Analysis Failed when the analysis threw.
\<close>

definition analyzeLeaveRequest :: "Store \<Rightarrow> LeaveRequest \<Rightarrow> LeaveRequest option" where
  "analyzeLeaveRequest st leaveRequest =
     (if lr_status leaveRequest \<noteq> PendingAnalysis then None
      else
        (case performComprehensiveAnalysis st leaveRequest of
           Inr analysisResult \<Rightarrow>
             Some (leaveRequest\<lparr>lr_status := (if ar_recommendation analysisResult = Deny
                                                then Denied else PendingApproval)\<rparr>)
         | Inl err \<Rightarrow> Some (leaveRequest\<lparr>lr_status := AnalysisFailed\<rparr>)))"

section \<open>Specification-side notions\<close>


text \<open>The calls of a resident on record in the window of 28 days that ends before \<open>d\<close>.\<close>

definition recentCalls :: "(string \<Rightarrow> CallStats) \<Rightarrow> string \<Rightarrow> date \<Rightarrow> int" where
  "recentCalls cs residentId d =
     int (length (filter (\<lambda>x. x \<in> {d - 28 ..< d}) (callDates (cs residentId))))"



text \<open>The CORE_NSX assignments of a block that are tagged with team \<open>t\<close>.\<close>

definition teamCount :: "Team \<Rightarrow> RotationAssignment list \<Rightarrow> nat" where
  "teamCount t as = length (filter (\<lambda>a. rotationType a = CORE_NSX \<and> team a = Some t) as)"

text \<open>No cell of the row carries a team yet.\<close>

definition untagged :: "RotationAssignment option list \<Rightarrow> bool" where
  "untagged row = (\<forall>a. Some a \<in> set row \<longrightarrow> team a = None)"

text \<open>The block numbers of the configured mandatory-rotation and exam-leave rules.\<close>

definition ruleBlocks :: "Engine \<Rightarrow> int list" where
  "ruleBlocks e =
     (case yearlySchedulerConfig (e_config e) of
        None \<Rightarrow> []
      | Some yc \<Rightarrow> map rr_blockNumber (mandatoryRotations yc @ examLeave yc))"

text \<open>The grid has its 13 rows and no cell carries a team.\<close>

definition gridOk :: "grid \<Rightarrow> bool" where
  "gridOk g = (length g = BLOCKS_PER_YEAR \<and> (\<forall>row\<in>set g. untagged row))"

text \<open>The Saturdays and Sundays of a request's date range, and the level its ratio alone gives.\<close>

definition weekendDays :: "LeaveRequest \<Rightarrow> nat" where
  "weekendDays request =
     length (filter (\<lambda>d. getDay d = 0 \<or> getDay d = 6) [lr_startDate request..lr_endDate request])"

definition baseRisk :: "Store \<Rightarrow> LeaveRequest \<Rightarrow> RiskLevel" where
  "baseRisk st request =
     (let ratio = coverageRatio (analyzeCoverageImpact st request)
      in if ratio \<ge> 8 / 10 then Low else if ratio \<ge> 6 / 10 then Medium else High)"

text \<open>The status the analyzer's transaction writes for a recommendation.\<close>

definition statusFor :: "Decision \<Rightarrow> LeaveStatus" where
  "statusFor d = (case d of Deny \<Rightarrow> Denied | Approve \<Rightarrow> PendingApproval | Flagged \<Rightarrow> PendingApproval)"

section \<open>Example inputs\<close>

text \<open>
  May 2025 with the configuration of the small-month scenario. Block 11 of the academic
  year 2024-2025 runs from 7 April to 4 May 2025, block 12 from 5 May to 1 June; the
  residents are on the core service in block 11 and off service in block 12.
\<close>

definition exConfig :: AppConfiguration where
  "exConfig =
     \<lparr>monthlySchedulerConfig =
        \<lparr>paroHardCaps = [\<lparr>minDays = 1, maxDays = 31, calls = 7\<rparr>],
         callRatios = [2 \<mapsto> 5, 3 \<mapsto> 4, 4 \<mapsto> 3, 5 \<mapsto> 3],
         maxWeekendsPerRotation = 2,
         weekendDefinition = [''Friday'', ''Saturday'', ''Sunday'']\<rparr>,
      yearlySchedulerConfig = None, coverageRules = [], leavePolicy = None, holidays = []\<rparr>"

definition exResident :: "string \<Rightarrow> Resident" where
  "exResident i =
     \<lparr>rid = i, name = ''Dr. '' @ i, pgyLevel = 3, specialty = ''Neurosurgery'',
      onService = True, isChief = False, callExempt = False\<rparr>"

definition exRotation :: "RotationType \<Rightarrow> string \<Rightarrow> RotationAssignment" where
  "exRotation rt i =
     \<lparr>ra_residentId = i, rotationName = ''Rotation'', rotationType = rt, team = None,
      holidayType = None, required = False\<rparr>"

definition exYear :: AcademicYear where
  "exYear =
     \<lparr>ay_id = ''2024-2025'',
      blocks = [\<lparr>blockNumber = 11, rb_startDate = newDate 2025 3 7, rb_endDate = newDate 2025 4 4,
                 assignments = map (exRotation CORE_NSX) [''a'', ''b'']\<rparr>,
                \<lparr>blockNumber = 12, rb_startDate = newDate 2025 4 5, rb_endDate = newDate 2025 5 1,
                 assignments = map (exRotation MANDATORY_OFF_SERVICE) [''a'', ''b'']\<rparr>],
      totalResidents = 2, totalExternalRotators = 0\<rparr>"

definition exScheduler :: "string list \<Rightarrow> LeaveRequest list \<Rightarrow> Scheduler" where
  "exScheduler ids leave =
     MonthlyCallScheduler (map exResident ids) exConfig exYear leave 4 2025 []"


text \<open>The call of resident \<open>i\<close> on a day of May 2025, and the post-call entry that follows it.\<close>

definition exCall :: "string \<Rightarrow> int \<Rightarrow> CallType \<Rightarrow> CallAssignment" where
  "exCall i day ct =
     \<lparr>ca_id = ''call-2025-05-'' @ showInt day @ ''-'' @ i, ca_residentId = i,
      ca_residentName = ''Dr. '' @ i, ca_date = newDate 2025 4 day, ca_type = ct,
      ca_points = calculateCallPoints ct, ca_isHoliday = False, ca_team = None,
      ca_createdBy = ''system'', ca_status = ''Scheduled''\<rparr>"

definition exPostCall :: "string \<Rightarrow> int \<Rightarrow> CallAssignment" where
  "exPostCall i day =
     \<lparr>ca_id = ''postcall-call-2025-05-'' @ showInt day @ ''-'' @ i, ca_residentId = i,
      ca_residentName = ''Dr. '' @ i, ca_date = newDate 2025 4 (day + 1), ca_type = PostCall,
      ca_points = 0, ca_isHoliday = False, ca_team = None,
      ca_createdBy = ''system'', ca_status = ''PostCall''\<rparr>"

text \<open>
  A yearly run: four residents of PGY 2 to 5, an off-service rotation for PGY 2 in block 3
  and exam leave for PGY 5 in block 10, academic year 2025-2026.
\<close>

definition exEngine :: Engine where
  "exEngine =
     \<lparr>e_residents = [(exResident ''r2'')\<lparr>pgyLevel := 2\<rparr>, exResident ''r3'',
                      (exResident ''r4'')\<lparr>pgyLevel := 4\<rparr>, (exResident ''r5'')\<lparr>pgyLevel := 5\<rparr>],
      e_externalRotators = [],
      e_config = exConfig\<lparr>yearlySchedulerConfig :=
                   Some \<lparr>mandatoryRotations =
                           [\<lparr>rr_blockNumber = 3, rr_pgyLevels = [2], rr_rotationName = ''ICU''\<rparr>],
                         examLeave =
                           [\<lparr>rr_blockNumber = 10, rr_pgyLevels = [5],
                             rr_rotationName = ''Exam Leave''\<rparr>]\<rparr>\<rparr>,
      e_academicYearId = ''2025-2026'',
      e_startYear = 2025\<rparr>"

text \<open>The numbers of Red and Blue CORE_NSX assignments of every block of a result.\<close>

definition teamCounts :: "error + AcademicYear \<Rightarrow> (nat \<times> nat) list" where
  "teamCounts res =
     (case res of
        Inl err \<Rightarrow> []
      | Inr ay \<Rightarrow> map (\<lambda>b. (teamCount Red (assignments b), teamCount Blue (assignments b)))
                    (blocks ay))"

text \<open>
  A leave request of resident \<open>a\<close> from Saturday 6 to Saturday 20 September 2025, filed on
  1 July 2025, with ten neurosurgery residents on service and no other leave.
\<close>

definition exStore :: Store where
  "exStore =
     \<lparr>st_residents = map exResident [''a'', ''b'', ''c'', ''d'', ''e'', ''f'', ''g'', ''h'', ''i'', ''j''],
      st_leaveRequests = [],
      st_configuration = None,
      st_scheduleConflicts = [],
      st_today = newDate 2025 6 1\<rparr>"

definition exLongRequest :: LeaveRequest where
  "exLongRequest =
     \<lparr>lr_id = ''leave-2'', lr_residentId = ''a'', lr_type = ''Personal'',
      lr_status = PendingAnalysis,
      lr_startDate = newDate 2025 8 6, lr_endDate = newDate 2025 8 20\<rparr>"

text \<open>The same request with only four residents on service.\<close>

definition exSmallStore :: Store where
  "exSmallStore = exStore\<lparr>st_residents := map exResident [''a'', ''b'', ''c'', ''d'']\<rparr>"

section \<open>Properties of the call cap\<close>




text \<open>
  C8. For every resident and every number of working days, the Shortage cap is at least
  the Normal cap.
\<close>

theorem shortage_relaxes_normal:
  "getMaxCalls mc r W Normal \<le> getMaxCalls mc r W Shortage"
  unfolding getMaxCalls_def Let_def
  by (auto split: option.splits)

section \<open>The rolling PARO rule\<close>

lemma checkPARO_iff:
  "checkPAROCompliance cs i d \<longleftrightarrow> recentCalls cs i d + 1 \<le> 7"
proof -
  have "(rat_of_int (recentCalls cs i d + 1) \<le> rat_of_int 28 / 4) = (recentCalls cs i d + 1 \<le> 7)"
    by (simp add: le_divide_eq)
  then show ?thesis
    unfolding checkPAROCompliance_def recentCalls_def Let_def
    by (simp add: conj_commute)
qed

lemma eligible_imp_paro:
  "isEligibleForCall s cs resident d m \<Longrightarrow> checkPAROCompliance cs (rid resident) d"
  unfolding isEligibleForCall_def Let_def
  by (auto split: option.splits if_splits)

text \<open>
  C9. A resident eligible for a call on date \<open>d\<close> has at most 6 calls on record in the 28
  days before \<open>d\<close> (the window from \<open>d - 28\<close> up to, not including, \<open>d\<close>), and the PARO check
  fails exactly when that count plus one exceeds 7.
\<close>

theorem paro_rolling_window:
  "(isEligibleForCall s cs resident d m \<longrightarrow> recentCalls cs (rid resident) d + 1 \<le> 7) \<and>
   (\<not> checkPAROCompliance cs i d \<longleftrightarrow> recentCalls cs i d + 1 > 7)"
  using eligible_imp_paro [of s cs resident d m] checkPARO_iff [of cs "rid resident" d]
    checkPARO_iff [of cs i d]
  by auto

theorem paro_rolling_window_witness:
  "isEligibleForCall (exScheduler [''a''] []) (initializeCallStats (exScheduler [''a''] []))
     (exResident ''a'') (newDate 2025 4 2) Normal \<and>
   recentCalls (initializeCallStats (exScheduler [''a''] [])) (rid (exResident ''a''))
     (newDate 2025 4 2) + 1 \<le> 7"
proof -
  have h: "isEligibleForCall (exScheduler [''a''] []) (initializeCallStats (exScheduler [''a''] []))
     (exResident ''a'') (newDate 2025 4 2) Normal"
    by code_simp
  with paro_rolling_window [of "exScheduler [''a''] []" "initializeCallStats (exScheduler [''a''] [])"
      "exResident ''a''" "newDate 2025 4 2" Normal]
  show ?thesis by simp
qed

section \<open>Selection and the leave check\<close>


lemma ss_resident_scoreResident [simp]: "ss_resident (scoreResident s cs r d ct) = r"
  by (simp add: scoreResident_def Let_def)










section \<open>Runs of the monthly scheduler on the example inputs\<close>

lemma exRun_single:
  "generateSchedule (exScheduler [''a''] []) Normal =
     [exCall ''a'' 2 Weekend, exPostCall ''a'' 2, exCall ''a'' 4 Weekend, exPostCall ''a'' 4,
      exCall ''a'' 1 Night, exPostCall ''a'' 1]"
  by code_simp






text \<open>
  C1 does not hold of the code. In May 2025 the one resident \<open>a\<close> is given the weekend
  calls of Friday 2 and Sunday 4 May first; when the night of Thursday 1 May is filled
  afterwards, \<open>isPostCall\<close> compares with the last call assigned (4 May) only, and \<open>a\<close>
  gets Thursday too: calls on 1 May and on 2 May.
\<close>

theorem consecutive_calls_may_2025:
  "exCall ''a'' 1 Night \<in> set (generateSchedule (exScheduler [''a''] []) Normal) \<and>
   exCall ''a'' 2 Weekend \<in> set (generateSchedule (exScheduler [''a''] []) Normal) \<and>
   ca_residentId (exCall ''a'' 2 Weekend) = ca_residentId (exCall ''a'' 1 Night) \<and>
   ca_type (exCall ''a'' 1 Night) \<noteq> PostCall \<and> ca_type (exCall ''a'' 2 Weekend) \<noteq> PostCall \<and>
   ca_date (exCall ''a'' 2 Weekend) = ca_date (exCall ''a'' 1 Night) + 1"
  unfolding exRun_single by (simp add: exCall_def newDate_def)







section \<open>The second monthly scheduler emits nothing\<close>

text \<open>
  C10. The \<open>generateSchedule\<close> of the "Backend logic" file returns the empty list for every
  scheduler and staffing level; on the example input the full implementation returns
  assignments, so the two are not equivalent.
\<close>

theorem dup_generateSchedule_empty:
  "dup_generateSchedule s staffingLevel = [] \<and>
   generateSchedule (exScheduler [''a''] []) Normal \<noteq>
   dup_generateSchedule (exScheduler [''a''] []) Normal"
  unfolding exRun_single
  unfolding dup_generateSchedule_def Let_def by simp

section \<open>Team balance in the yearly rotation engine\<close>

lemma untagged_update:
  "untagged row \<Longrightarrow> team a = None \<Longrightarrow> untagged (row[i := Some a])"
  unfolding untagged_def by (auto dest!: set_update_subset_insert [THEN subsetD])

lemma gridOk_update:
  assumes "gridOk g" "untagged row"
  shows "gridOk (g[b := row])"
  using assms unfolding gridOk_def
  by (auto dest!: set_update_subset_insert [THEN subsetD])

lemma assign_gridOk:
  assumes "assign e g block i rot = Inr g'" "gridOk g" "team rot = None"
  shows "gridOk g'"
proof -
  have blk: "0 \<le> block" "block < int (length g)"
    using assms(1) unfolding assign_def isSlotEmpty_def by (auto split: if_splits)
  then have "g ! nat block \<in> set g" by (simp add: nat_less_iff)
  with assms(2) have u: "untagged (g ! nat block)" by (simp add: gridOk_def)
  have "gridOk (g[nat block := (g ! nat block)[i := Some (rot\<lparr>ra_residentId := rid (e_residents e ! i)\<rparr>)]])"
    by (rule gridOk_update [OF assms(2)]) (rule untagged_update [OF u], simp add: assms(3))
  with assms(1,2) blk show ?thesis
    unfolding assign_def isSlotEmpty_def by (auto split: if_splits simp: Let_def)
qed

lemma assign_succeeds:
  "gridOk g \<Longrightarrow> 0 \<le> block \<Longrightarrow> block < 13 \<Longrightarrow> \<exists>g'. assign e g block i rot = Inr g'"
  unfolding assign_def isSlotEmpty_def gridOk_def BLOCKS_PER_YEAR_def
  by (auto simp: Let_def)

lemma applyRule_gridOk:
  "applyRule e rt rule rs i g = Inr g' \<Longrightarrow> gridOk g \<Longrightarrow> gridOk g'"
proof (induction rs arbitrary: i g)
  case Nil
  then show ?case by simp
next
  case (Cons r rs)
  then show ?case
    by (auto split: if_splits sum.splits dest!: assign_gridOk)
qed

lemma applyRule_succeeds:
  "gridOk g \<Longrightarrow> 1 \<le> rr_blockNumber rule \<Longrightarrow> rr_blockNumber rule \<le> 13 \<Longrightarrow>
   \<exists>g'. applyRule e rt rule rs i g = Inr g'"
proof (induction rs arbitrary: i g)
  case Nil
  then show ?case by simp
next
  case (Cons r rs)
  let ?rot = "\<lparr>ra_residentId = [], rotationName = rr_rotationName rule, rotationType = rt,
                team = None, holidayType = None, required = True\<rparr>"
  show ?case
  proof (cases "pgyLevel r \<in> set (rr_pgyLevels rule)")
    case True
    have "0 \<le> rr_blockNumber rule - 1" "rr_blockNumber rule - 1 < 13" using Cons.prems by auto
    from assign_succeeds [OF Cons.prems(1) this, of e i ?rot]
    obtain g1 where a: "assign e g (rr_blockNumber rule - 1) i ?rot = Inr g1" by blast
    from assign_gridOk [OF a Cons.prems(1)] have "gridOk g1" by simp
    from Cons.IH [OF this Cons.prems(2,3)] a True show ?thesis by simp
  next
    case False
    with Cons show ?thesis by simp
  qed
qed

lemma applyRules_gridOk:
  "applyRules e rt rules g = Inr g' \<Longrightarrow> gridOk g \<Longrightarrow> gridOk g'"
  by (induction rules arbitrary: g) (auto split: sum.splits dest: applyRule_gridOk)

lemma applyRules_succeeds:
  "gridOk g \<Longrightarrow> \<forall>rule\<in>set rules. 1 \<le> rr_blockNumber rule \<and> rr_blockNumber rule \<le> 13 \<Longrightarrow>
   \<exists>g'. applyRules e rt rules g = Inr g'"
proof (induction rules arbitrary: g)
  case Nil
  then show ?case by simp
next
  case (Cons rule rules)
  from applyRule_succeeds [of g rule e rt "e_residents e" 0] Cons.prems
  obtain g1 where a: "applyRule e rt rule (e_residents e) 0 g = Inr g1" by auto
  from applyRule_gridOk [OF a Cons.prems(1)] Cons.IH [of g1] Cons.prems(2) a
  show ?case by auto
qed

lemma offerHolidays_gridOk:
  "offerHolidays e srs idx g = Inr g' \<Longrightarrow> gridOk g \<Longrightarrow> gridOk g'"
proof (induction srs arbitrary: idx g)
  case Nil
  then show ?case by simp
next
  case (Cons sr srs)
  obtain r i where sr: "sr = (r, i)" by (cases sr)
  from Cons.prems show ?case unfolding sr
    by (auto simp: Let_def split: if_splits sum.splits dest!: assign_gridOk intro: Cons.IH)
qed

lemma isSlotEmpty_succeeds:
  "gridOk g \<Longrightarrow> 0 \<le> block \<Longrightarrow> block < 13 \<Longrightarrow> \<exists>b. isSlotEmpty g block i = Inr b"
  unfolding isSlotEmpty_def gridOk_def BLOCKS_PER_YEAR_def by (auto simp: Let_def)

lemma offerHolidays_succeeds:
  "gridOk g \<Longrightarrow> \<exists>g'. offerHolidays e srs idx g = Inr g'"
proof (induction srs arbitrary: idx g)
  case Nil
  then show ?case by simp
next
  case (Cons sr srs)
  obtain r i where sr: "sr = (r, i)" by (cases sr)
  let ?b = "(if idx mod 2 = 0 then 6 else 7 :: int) - 1"
  let ?rot = "\<lparr>ra_residentId = [], rotationName = ''Holiday Leave'',
                 rotationType = HOLIDAY_LEAVE, team = None,
                 holidayType = Some (if (if idx mod 2 = 0 then 6 else 7 :: int) = 6 then ''Christmas''
                                     else ''NewYear''),
                 required = False\<rparr>"
  have rng: "0 \<le> ?b" "?b < 13" by auto
  from isSlotEmpty_succeeds [OF Cons.prems rng, of i]
  obtain b where b: "isSlotEmpty g ?b i = Inr b" by blast
  show ?case
  proof (cases b)
    case True
    from assign_succeeds [OF Cons.prems rng, of e i ?rot]
    obtain g1 where a: "assign e g ?b i ?rot = Inr g1" by blast
    from assign_gridOk [OF a Cons.prems] have "gridOk g1" by simp
    from Cons.IH [OF this, of "Suc idx"] a b True show ?thesis
      unfolding sr by (simp add: Let_def)
  next
    case False
    with Cons.IH [OF Cons.prems, of "Suc idx"] b show ?thesis
      unfolding sr by (simp add: Let_def)
  qed
qed

lemma fillCore_gridOk:
  "fillCore e cells g = Inr g' \<Longrightarrow> gridOk g \<Longrightarrow> gridOk g'"
proof (induction cells arbitrary: g)
  case Nil
  then show ?case by simp
next
  case (Cons c cells)
  obtain b i where c: "c = (b, i)" by (cases c)
  from Cons.prems show ?case unfolding c
    by (auto split: if_splits sum.splits dest!: assign_gridOk intro: Cons.IH)
qed

lemma fillCore_succeeds:
  "gridOk g \<Longrightarrow> \<forall>c\<in>set cells. fst c < 13 \<Longrightarrow> \<exists>g'. fillCore e cells g = Inr g'"
proof (induction cells arbitrary: g)
  case Nil
  then show ?case by simp
next
  case (Cons c cells)
  obtain b i where c: "c = (b, i)" by (cases c)
  let ?rot = "\<lparr>ra_residentId = [], rotationName = ''Neurosurgery - Core'',
                 rotationType = CORE_NSX, team = None, holidayType = None, required = False\<rparr>"
  have lt: "b < 13" using Cons.prems(2) c by simp
  have "0 \<le> int b" "int b < 13" using lt by auto
  from isSlotEmpty_succeeds [OF Cons.prems(1) this, of i]
  obtain v where v: "isSlotEmpty g (int b) i = Inr v" by blast
  have rest: "\<forall>c\<in>set cells. fst c < 13" using Cons.prems(2) by simp
  show ?case
  proof (cases v)
    case True
    have "0 \<le> int b" "int b < 13" using lt by auto
    from assign_succeeds [OF Cons.prems(1) this, of e i ?rot]
    obtain g1 where a: "assign e g (int b) i ?rot = Inr g1" by blast
    from assign_gridOk [OF a Cons.prems(1)] have "gridOk g1" by simp
    from Cons.IH [OF this rest] a v True show ?thesis unfolding c by simp
  next
    case False
    with Cons.IH [OF Cons.prems(1) rest] v show ?thesis unfolding c by simp
  qed
qed


lemma emptySchedule_gridOk: "gridOk (emptySchedule e)"
  unfolding gridOk_def emptySchedule_def untagged_def by auto

lemma phases_gridOk:
  assumes "phase1_AssignMandatoryRotations e (emptySchedule e) = Inr s1"
    and "phase2_AssignExamBlocks e s1 = Inr s2"
    and "phase3_AssignHolidayBlocks e s2 = Inr s3"
    and "phase4_AssignCoreNeurosurgeryRotations e s3 = Inr s4"
  shows "gridOk s4"
proof -
  from assms(1) have "gridOk s1"
    unfolding phase1_AssignMandatoryRotations_def Let_def
    by (rule applyRules_gridOk) (rule emptySchedule_gridOk)
  with assms(2) have "gridOk s2"
    unfolding phase2_AssignExamBlocks_def Let_def by (rule applyRules_gridOk)
  with assms(3) have "gridOk s3"
    unfolding phase3_AssignHolidayBlocks_def Let_def by (rule offerHolidays_gridOk)
  with assms(4) show ?thesis
    unfolding phase4_AssignCoreNeurosurgeryRotations_def by (rule fillCore_gridOk)
qed

lemma countTeam_untagged: "untagged row \<Longrightarrow> countTeam t row = 0"
  unfolding untagged_def countTeam_def
  by (auto simp: filter_empty_conv split: option.splits)

lemma countTeam_Nil: "countTeam t [] = 0"
  by (simp add: countTeam_def)

lemma countTeam_None: "countTeam t (None # row) = countTeam t row"
  by (simp add: countTeam_def)

lemma countTeam_Some:
  "countTeam t (Some a # row) =
     (if rotationType a = CORE_NSX \<and> team a = Some t then Suc (countTeam t row) else countTeam t row)"
  by (simp add: countTeam_def)

lemma untagged_Cons: "untagged (c # row) \<Longrightarrow> untagged row"
  unfolding untagged_def by (meson list.set_intros(2))

lemma untagged_head: "untagged (Some a # row) \<Longrightarrow> team a = None"
  unfolding untagged_def by (meson list.set_intros(1))

lemma balanceRow_balanced:
  "untagged row \<Longrightarrow> b \<le> r \<Longrightarrow> r \<le> b + 1 \<Longrightarrow>
   b + countTeam Blue (balanceRow row r b) \<le> r + countTeam Red (balanceRow row r b) \<and>
   r + countTeam Red (balanceRow row r b) \<le> b + countTeam Blue (balanceRow row r b) + 1"
proof (induction row arbitrary: r b)
  case Nil
  then show ?case by (simp add: countTeam_Nil)
next
  case (Cons c row)
  from Cons.prems(1) have u: "untagged row" by (rule untagged_Cons)
  show ?case
  proof (cases c)
    case None
    from Cons.IH [OF u Cons.prems(2,3)] show ?thesis
      unfolding None by (simp add: countTeam_None)
  next
    case (Some a)
    from Cons.prems(1) have ta: "team a = None" unfolding Some by (rule untagged_head)
    show ?thesis
    proof (cases "rotationType a = CORE_NSX")
      case core: True
      show ?thesis
      proof (cases "r \<le> b")
        case True
        with Cons.prems have "b \<le> r + 1" "r + 1 \<le> b + 1" by simp_all
        from Cons.IH [OF u this] have
          "b + countTeam Blue (balanceRow row (r + 1) b) \<le> r + 1 + countTeam Red (balanceRow row (r + 1) b)"
          "r + 1 + countTeam Red (balanceRow row (r + 1) b) \<le> b + countTeam Blue (balanceRow row (r + 1) b) + 1"
          by simp_all
        moreover have "balanceRow (c # row) r b = Some (a\<lparr>team := Some Red\<rparr>) # balanceRow row (r + 1) b"
          unfolding Some using core ta True by simp
        ultimately show ?thesis
          using core by (simp add: countTeam_Some)
      next
        case False
        with Cons.prems have "b + 1 \<le> r" "r \<le> b + 1 + 1" by simp_all
        from Cons.IH [OF u this] have
          "b + 1 + countTeam Blue (balanceRow row r (b + 1)) \<le> r + countTeam Red (balanceRow row r (b + 1))"
          "r + countTeam Red (balanceRow row r (b + 1)) \<le> b + 1 + countTeam Blue (balanceRow row r (b + 1)) + 1"
          by simp_all
        moreover have "balanceRow (c # row) r b = Some (a\<lparr>team := Some Blue\<rparr>) # balanceRow row r (b + 1)"
          unfolding Some using core ta False by simp
        ultimately show ?thesis
          using core by (simp add: countTeam_Some)
      qed
    next
      case False
      have "balanceRow (c # row) r b = Some a # balanceRow row r b"
        unfolding Some using False by simp
      with Cons.IH [OF u Cons.prems(2,3)] False show ?thesis
        by (simp add: countTeam_Some)
    qed
  qed
qed

lemma teamCount_cells:
  "teamCount t (map the (filter (\<lambda>a. a \<noteq> None) row)) = countTeam t row"
  unfolding teamCount_def countTeam_def
  by (induction row) (auto split: option.splits)

lemma phase6_row_balanced:
  assumes "gridOk g" "blockNum < BLOCKS_PER_YEAR"
  shows "teamCount Blue (map the (filter (\<lambda>a. a \<noteq> None) (phase6_BalanceTeams g ! blockNum)))
           \<le> teamCount Red (map the (filter (\<lambda>a. a \<noteq> None) (phase6_BalanceTeams g ! blockNum))) \<and>
         teamCount Red (map the (filter (\<lambda>a. a \<noteq> None) (phase6_BalanceTeams g ! blockNum)))
           \<le> teamCount Blue (map the (filter (\<lambda>a. a \<noteq> None) (phase6_BalanceTeams g ! blockNum))) + 1"
proof -
  from assms have lt: "blockNum < length g" and u: "untagged (g ! blockNum)"
    by (auto simp: gridOk_def)
  have row: "phase6_BalanceTeams g ! blockNum = balanceRow (g ! blockNum) 0 0"
    using lt u by (simp add: phase6_BalanceTeams_def countTeam_untagged)
  from balanceRow_balanced [OF u, of 0 0] show ?thesis
    unfolding row teamCount_cells by simp
qed

lemma yearly_blocks_balanced:
  assumes "yearly_generateSchedule e = Inr ay"
  shows "length (blocks ay) = 13 \<and>
         (\<forall>b\<in>set (blocks ay).
            teamCount Blue (assignments b) \<le> teamCount Red (assignments b) \<and>
            teamCount Red (assignments b) \<le> teamCount Blue (assignments b) + 1)"
proof -
  from assms obtain s1 s2 s3 s4 where
    p: "phase1_AssignMandatoryRotations e (emptySchedule e) = Inr s1"
       "phase2_AssignExamBlocks e s1 = Inr s2"
       "phase3_AssignHolidayBlocks e s2 = Inr s3"
       "phase4_AssignCoreNeurosurgeryRotations e s3 = Inr s4"
    and ay: "ay = formatScheduleForFirestore e (phase6_BalanceTeams s4)"
    unfolding yearly_generateSchedule_def by (auto split: sum.splits)
  from phases_gridOk [OF p] have ok: "gridOk s4" .
  have len: "length (blocks ay) = 13"
    unfolding ay formatScheduleForFirestore_def by (simp add: BLOCKS_PER_YEAR_def)
  moreover have "teamCount Blue (assignments b) \<le> teamCount Red (assignments b) \<and>
            teamCount Red (assignments b) \<le> teamCount Blue (assignments b) + 1"
    if "b \<in> set (blocks ay)" for b
  proof -
    from that obtain blockNum where n: "blockNum < BLOCKS_PER_YEAR"
      and b: "assignments b = map the (filter (\<lambda>a. a \<noteq> None) (phase6_BalanceTeams s4 ! blockNum))"
      unfolding ay formatScheduleForFirestore_def by auto
    from phase6_row_balanced [OF ok n] show ?thesis unfolding b .
  qed
  ultimately show ?thesis by blast
qed

lemma yearly_succeeds:
  assumes "\<forall>n\<in>set (ruleBlocks e). 1 \<le> n \<and> n \<le> 13"
  shows "\<exists>ay. yearly_generateSchedule e = Inr ay"
proof -
  have r1: "\<forall>rule\<in>set (case yearlySchedulerConfig (e_config e) of None \<Rightarrow> [] | Some yc \<Rightarrow> mandatoryRotations yc).
              1 \<le> rr_blockNumber rule \<and> rr_blockNumber rule \<le> 13"
    and r2: "\<forall>rule\<in>set (case yearlySchedulerConfig (e_config e) of None \<Rightarrow> [] | Some yc \<Rightarrow> examLeave yc).
              1 \<le> rr_blockNumber rule \<and> rr_blockNumber rule \<le> 13"
    using assms unfolding ruleBlocks_def by (auto split: option.splits)
  from applyRules_succeeds [OF emptySchedule_gridOk r1]
  obtain s1 where p1: "phase1_AssignMandatoryRotations e (emptySchedule e) = Inr s1"
    unfolding phase1_AssignMandatoryRotations_def Let_def by blast
  then have ok1: "gridOk s1"
    unfolding phase1_AssignMandatoryRotations_def Let_def
    by (rule applyRules_gridOk) (rule emptySchedule_gridOk)
  from applyRules_succeeds [OF ok1 r2]
  obtain s2 where p2: "phase2_AssignExamBlocks e s1 = Inr s2"
    unfolding phase2_AssignExamBlocks_def Let_def by blast
  then have ok2: "gridOk s2"
    unfolding phase2_AssignExamBlocks_def Let_def using ok1 by (rule applyRules_gridOk)
  from offerHolidays_succeeds [OF ok2]
  obtain s3 where p3: "phase3_AssignHolidayBlocks e s2 = Inr s3"
    unfolding phase3_AssignHolidayBlocks_def Let_def by blast
  then have ok3: "gridOk s3"
    unfolding phase3_AssignHolidayBlocks_def Let_def using ok2 by (rule offerHolidays_gridOk)
  have "\<forall>c\<in>set (concat (map (\<lambda>block. map (\<lambda>resIndex. (block, resIndex))
                                         [0..<length (e_residents e)])
                           [0..<BLOCKS_PER_YEAR])). fst c < 13"
    by (auto simp: BLOCKS_PER_YEAR_def)
  from fillCore_succeeds [OF ok3 this]
  obtain s4 where p4: "phase4_AssignCoreNeurosurgeryRotations e s3 = Inr s4"
    unfolding phase4_AssignCoreNeurosurgeryRotations_def by blast
  from p1 p2 p3 p4 show ?thesis
    unfolding yearly_generateSchedule_def by simp
qed


lemma exYearly_counts:
  "teamCounts (yearly_generateSchedule exEngine) =
     [(2, 2), (2, 2), (2, 1), (2, 2), (2, 2), (2, 1), (2, 1), (2, 2), (2, 2), (2, 1), (2, 2), (2, 2), (2, 2)]"
  by code_simp

text \<open>
  C7. Every academic year the engine produces has 13 blocks, and in each block the CORE_NSX
  assignments tagged Red and those tagged Blue differ by at most one, Red being the team
  that is ahead (it is assigned first on a tie). The engine produces a year whenever the
  block numbers of the configured rules lie between 1 and 13.
\<close>

theorem yearly_team_balance:
  "(yearly_generateSchedule e = Inr ay \<longrightarrow>
      length (blocks ay) = 13 \<and>
      (\<forall>b\<in>set (blocks ay).
         teamCount Blue (assignments b) \<le> teamCount Red (assignments b) \<and>
         teamCount Red (assignments b) \<le> teamCount Blue (assignments b) + 1)) \<and>
   ((\<forall>n\<in>set (ruleBlocks e). 1 \<le> n \<and> n \<le> 13) \<longrightarrow>
      (\<exists>ay'. yearly_generateSchedule e = Inr ay'))"
  using yearly_blocks_balanced [of e ay] yearly_succeeds [of e]
  by blast

theorem yearly_team_balance_witness:
  "ruleBlocks exEngine = [3, 10] \<and>
   (\<exists>ay. yearly_generateSchedule exEngine = Inr ay \<and>
      length (blocks ay) = 13 \<and>
      (\<forall>b\<in>set (blocks ay).
         teamCount Blue (assignments b) \<le> teamCount Red (assignments b) \<and>
         teamCount Red (assignments b) \<le> teamCount Blue (assignments b) + 1)) \<and>
   teamCounts (yearly_generateSchedule exEngine) =
     [(2, 2), (2, 2), (2, 1), (2, 2), (2, 2), (2, 1), (2, 1), (2, 2), (2, 2), (2, 1), (2, 2), (2, 2), (2, 2)]"
proof -
  have rules: "ruleBlocks exEngine = [3, 10]"
    by (simp add: ruleBlocks_def exEngine_def exConfig_def)
  then have "\<forall>n\<in>set (ruleBlocks exEngine). 1 \<le> n \<and> n \<le> 13" by simp
  with yearly_team_balance [of exEngine] obtain ay where
    ay: "yearly_generateSchedule exEngine = Inr ay" by blast
  from yearly_team_balance [of exEngine ay] ay rules exYearly_counts
  show ?thesis by blast
qed

section \<open>Coverage risk of a leave request\<close>

lemma weekendDatesLoop_filter:
  "weekendDatesLoop current end acc =
     acc @ filter (\<lambda>d. getDay d = 0 \<or> getDay d = 6) [current..end]"
proof (induction current "end" acc rule: weekendDatesLoop.induct)
  case (1 current "end" acc)
  show ?case
  proof (cases "current \<le> end")
    case True
    then have "[current..end] = current # [current + 1..end]" by (rule upto_rec1)
    with 1 True show ?thesis
      by (subst weekendDatesLoop.simps) simp
  next
    case False
    then show ?thesis by (subst weekendDatesLoop.simps) simp
  qed
qed

lemma criticalDates_weekendDays:
  "length (criticalDates (analyzeCoverageImpact st request)) = weekendDays request"
  unfolding analyzeCoverageImpact_def weekendDays_def Let_def
  by (simp add: weekendDatesLoop_filter)

lemma riskLevel_cases:
  "riskLevel (analyzeCoverageImpact st request) =
     (if weekendDays request > 2 \<and> baseRisk st request = Low then Medium
      else if weekendDays request > 4 then High
      else baseRisk st request)"
  unfolding baseRisk_def weekendDays_def analyzeCoverageImpact_def Let_def
  by (simp add: weekendDatesLoop_filter)

lemma exCoverage:
  "riskLevel (analyzeCoverageImpact exStore exLongRequest) = Medium \<and>
   length (criticalDates (analyzeCoverageImpact exStore exLongRequest)) = 5 \<and>
   coverageRatio (analyzeCoverageImpact exStore exLongRequest) = 9 / 10"
  by code_simp

lemma exSmallCoverage:
  "riskLevel (analyzeCoverageImpact exSmallStore exLongRequest) = High \<and>
   coverageRatio (analyzeCoverageImpact exSmallStore exLongRequest) = 3 / 4"
  by code_simp

text \<open>
  C6 as stated fails: the request of 6 to 20 September 2025 holds 5 weekend days, the
  coverage ratio is 9/10 (Low), and the analysis returns Medium, not High.
\<close>

theorem weekend_escalation_counterexample:
  "weekendDays exLongRequest > 4 \<and>
   riskLevel (analyzeCoverageImpact exStore exLongRequest) \<noteq> High"
  using exCoverage criticalDates_weekendDays [of exStore exLongRequest]
  by simp

text \<open>
  C6, amended. With more than 4 weekend days in the request the analysis returns High when
  the ratio-based level is Medium or High; with more than 2 weekend days and a ratio-based
  Low it returns Medium, also when there are more than 4. The critical dates are the
  Saturdays and Sundays of the range.
\<close>

theorem weekend_escalation:
  "(weekendDays request > 4 \<and> baseRisk st request \<noteq> Low \<longrightarrow>
      riskLevel (analyzeCoverageImpact st request) = High) \<and>
   (weekendDays request > 2 \<and> baseRisk st request = Low \<longrightarrow>
      riskLevel (analyzeCoverageImpact st request) = Medium) \<and>
   length (criticalDates (analyzeCoverageImpact st request)) = weekendDays request"
  using riskLevel_cases [of st request] criticalDates_weekendDays [of st request]
  by simp

theorem weekend_escalation_witness:
  "weekendDays exLongRequest > 4 \<and> baseRisk exSmallStore exLongRequest \<noteq> Low \<and>
   riskLevel (analyzeCoverageImpact exSmallStore exLongRequest) = High \<and>
   weekendDays exLongRequest > 2 \<and> baseRisk exStore exLongRequest = Low \<and>
   riskLevel (analyzeCoverageImpact exStore exLongRequest) = Medium"
proof -
  have n: "weekendDays exLongRequest = 5"
    using exCoverage criticalDates_weekendDays [of exStore exLongRequest] by simp
  have b1: "baseRisk exSmallStore exLongRequest \<noteq> Low"
    using exSmallCoverage by (simp add: baseRisk_def)
  have b2: "baseRisk exStore exLongRequest = Low"
    using exCoverage by (simp add: baseRisk_def)
  from weekend_escalation [of exLongRequest exSmallStore] weekend_escalation [of exLongRequest exStore]
    n b1 b2
  show ?thesis by simp
qed

section \<open>The status the analyzer writes\<close>

lemma exAnalysis:
  "(case performComprehensiveAnalysis exStore exLongRequest of
      Inl err \<Rightarrow> False
    | Inr res \<Rightarrow> ar_recommendation res = Flagged)"
  by code_simp

text \<open>
  C5 as stated fails: the request is in Pending Analysis, the analysis completes with the
  recommendation Flagged for Review, and the status written is Pending Approval.
\<close>

theorem flagged_status_counterexample:
  "lr_status exLongRequest = PendingAnalysis \<and>
   (case performComprehensiveAnalysis exStore exLongRequest of
      Inl err \<Rightarrow> False
    | Inr res \<Rightarrow> ar_recommendation res = Flagged) \<and>
   map_option lr_status (analyzeLeaveRequest exStore exLongRequest) = Some PendingApproval"
  using exAnalysis
  by (auto simp: analyzeLeaveRequest_def exLongRequest_def split: sum.splits)

text \<open>
  C5, amended. When the analysis of a request in Pending Analysis completes, the request's
  status becomes Denied when the recommendation is Deny and Pending Approval otherwise, that
  is for Approve and for Flagged for Review alike.
\<close>

theorem analysis_sets_status:
  assumes "lr_status req = PendingAnalysis"
    and "performComprehensiveAnalysis st req = Inr res"
  shows "analyzeLeaveRequest st req = Some (req\<lparr>lr_status := statusFor (ar_recommendation res)\<rparr>) \<and>
         statusFor (ar_recommendation res) =
           (if ar_recommendation res = Deny then Denied else PendingApproval)"
  using assms unfolding analyzeLeaveRequest_def statusFor_def
  by (cases "ar_recommendation res") simp_all

theorem analysis_sets_status_witness:
  "lr_status exLongRequest = PendingAnalysis \<and>
   (\<exists>res. performComprehensiveAnalysis exStore exLongRequest = Inr res \<and>
      analyzeLeaveRequest exStore exLongRequest =
        Some (exLongRequest\<lparr>lr_status := statusFor (ar_recommendation res)\<rparr>) \<and>
      statusFor (ar_recommendation res) = PendingApproval)"
proof -
  have p: "lr_status exLongRequest = PendingAnalysis" by (simp add: exLongRequest_def)
  from exAnalysis obtain res where
    r: "performComprehensiveAnalysis exStore exLongRequest = Inr res" "ar_recommendation res = Flagged"
    by (auto split: sum.splits)
  from analysis_sets_status [OF p r(1)] p r show ?thesis by auto
qed

end
